theory Spec2Isabelle
  imports Main
begin

section \<open>JavaScript values\<close>

text \<open>
  The values that reach the application come out of \<^verbatim>\<open>JSON.parse\<close> and
  \<^verbatim>\<open>response.json()\<close>. Numbers are restricted to integers; \<^verbatim>\<open>NaN\<close> cannot come out of
  JSON. An object is the association list of its own properties. An array or an object
  carries its address, the identity that \<^verbatim>\<open>===\<close> compares: every parse puts the arrays and
  objects it builds at addresses of their own, and a value that is handed on (stored in a
  record, passed to a handler) keeps its address. Nothing in the source mutates an array
  or an object.
\<close>

datatype jsval =
    JUndefined
  | JNull
  | JBool bool
  | JNum int
  | JStr string
  | JArr nat "jsval list"
  | JObj nat "(string \<times> jsval) list"

datatype js_error = Error string | TypeError string | SyntaxError string

text \<open>Truthiness, as used by \<^verbatim>\<open>!x\<close>, \<^verbatim>\<open>x || y\<close> and \<^verbatim>\<open>if (x)\<close>.\<close>

fun truthy :: "jsval \<Rightarrow> bool" where
  "truthy JUndefined = False"
| "truthy JNull = False"
| "truthy (JBool b) = b"
| "truthy (JNum n) = (n \<noteq> 0)"
| "truthy (JStr s) = (s \<noteq> [])"
| "truthy (JArr a xs) = True"
| "truthy (JObj a fs) = True"

definition js_or :: "jsval \<Rightarrow> jsval \<Rightarrow> jsval" where
  "js_or a b = (if truthy a then a else b)"

text \<open>
  \<^verbatim>\<open>a === b\<close>. Primitives compare by value, arrays and objects by address: a stored
  record's own id is \<^verbatim>\<open>===\<close> to itself whatever it is, and the arrays and objects of two
  parses are never \<^verbatim>\<open>===\<close>.
\<close>

fun strict_eq :: "jsval \<Rightarrow> jsval \<Rightarrow> bool" where
  "strict_eq JUndefined b = (b = JUndefined)"
| "strict_eq JNull b = (b = JNull)"
| "strict_eq (JBool a) b = (b = JBool a)"
| "strict_eq (JNum a) b = (b = JNum a)"
| "strict_eq (JStr a) b = (b = JStr a)"
| "strict_eq (JArr a xs) b = (case b of JArr a' ys \<Rightarrow> a' = a | _ \<Rightarrow> False)"
| "strict_eq (JObj a fs) b = (case b of JObj a' gs \<Rightarrow> a' = a | _ \<Rightarrow> False)"



text \<open>
  The property read \<^verbatim>\<open>v.k\<close>, for the property names the source reads (none of them is
  inherited from a prototype): a TypeError on \<^verbatim>\<open>null\<close> and \<^verbatim>\<open>undefined\<close>, the stored value on
  an object that has the property, \<^verbatim>\<open>undefined\<close> otherwise.
\<close>

fun get_prop :: "jsval \<Rightarrow> string \<Rightarrow> js_error + jsval" where
  "get_prop JUndefined k = Inl (TypeError ''Cannot read properties of undefined'')"
| "get_prop JNull k = Inl (TypeError ''Cannot read properties of null'')"
| "get_prop (JObj a fs) k = Inr (case map_of fs k of None \<Rightarrow> JUndefined | Some v \<Rightarrow> v)"
| "get_prop v k = Inr JUndefined"

text \<open>Sequencing of computations that may throw.\<close>

definition and_then :: "'e + 'a \<Rightarrow> ('a \<Rightarrow> 'e + 'b) \<Rightarrow> 'e + 'b" where
  "and_then r f = (case r of Inl e \<Rightarrow> Inl e | Inr v \<Rightarrow> f v)"

section \<open>Notification records\<close>

text \<open>
  The object built in \<^verbatim>\<open>ws.onmessage\<close> (App.jsx, lines 166-177). The field \<^verbatim>\<open>id\<close> is
  called \<open>nid\<close> here. The two read flags are only ever tested for truthiness and set to
  \<^verbatim>\<open>true\<close>, so they are booleans. An update \<open>n\<lparr>read := True, is_read := True\<rparr>\<close> is the
  spread \<^verbatim>\<open>{ ...notif, read: true, is_read: true }\<close>. The records of the list that the
  gateway returns are read through the same fields.
\<close>

record notification =
  nid :: jsval
  title :: jsval
  message :: jsval
  notification_type :: jsval
  data :: jsval
  timestamp :: jsval
  created_at :: jsval
  read :: bool
  is_read :: bool

section \<open>The REST gateway\<close>

text \<open>
  What \<^verbatim>\<open>fetch\<close> settles with: a rejection (network failure, with the TypeError's
  message), or a response with its \<^verbatim>\<open>ok\<close> flag and the outcome of \<^verbatim>\<open>response.json()\<close>
  (\<open>Inl\<close> the SyntaxError's message when the body is not JSON).
\<close>

datatype 'a response = NetworkFailure string | Response bool "string + 'a"

definition json_body :: "string + 'a \<Rightarrow> js_error + 'a" where
  "json_body b = (case b of Inl m \<Rightarrow> Inl (SyntaxError m) | Inr v \<Rightarrow> Inr v)"

definition api_getProfile :: "jsval response \<Rightarrow> js_error + jsval" where
  "api_getProfile r =
     (case r of
        NetworkFailure m \<Rightarrow> Inl (TypeError m)
      | Response ok b \<Rightarrow>
          if \<not> ok then Inl (Error ''Failed to fetch profile'') else json_body b)"

definition api_markNotificationAsRead :: "jsval response \<Rightarrow> js_error + jsval" where
  "api_markNotificationAsRead r =
     (case r of
        NetworkFailure m \<Rightarrow> Inl (TypeError m)
      | Response ok b \<Rightarrow>
          if \<not> ok then Inl (Error ''Failed to mark notification as read'') else json_body b)"

text \<open>\<^verbatim>\<open>api.deleteNotification\<close> does not read the body.\<close>

definition api_deleteNotification :: "jsval response \<Rightarrow> js_error + unit" where
  "api_deleteNotification r =
     (case r of
        NetworkFailure m \<Rightarrow> Inl (TypeError m)
      | Response ok b \<Rightarrow>
          if \<not> ok then Inl (Error ''Failed to delete notification'') else Inr ())"

text \<open>
  The body of the notification list, by the shapes the source tells apart:
  \<^verbatim>\<open>{ notifications: [...] }\<close>, a bare array, \<^verbatim>\<open>null\<close> (on which reading
  \<^verbatim>\<open>.notifications\<close> throws) and any other value.
\<close>

datatype notifications_data =
    Wrapped "notification list"
  | Bare "notification list"
  | NullData
  | OtherData

definition api_getNotifications ::
  "notifications_data response \<Rightarrow> js_error + notifications_data" where
  "api_getNotifications r =
     (case r of
        NetworkFailure m \<Rightarrow> Inl (TypeError m)
      | Response ok b \<Rightarrow>
          if \<not> ok then Inl (Error ''Failed to fetch notifications'') else json_body b)"

text \<open>
  \<^verbatim>\<open>Array.isArray(d.notifications) ? d.notifications : Array.isArray(d) ? d : []\<close>
\<close>

fun notificationsList :: "notifications_data \<Rightarrow> js_error + notification list" where
  "notificationsList (Wrapped xs) = Inr xs"
| "notificationsList (Bare xs) = Inr xs"
| "notificationsList NullData = Inl (TypeError ''Cannot read properties of null'')"
| "notificationsList OtherData = Inr []"

text \<open>
  \<^verbatim>\<open>Promise.all\<close>: fulfilled with all the values when every promise is fulfilled, rejected
  when one is rejected (here with the error of the first rejected promise of the list).
\<close>

fun promise_all :: "('e + 'a) list \<Rightarrow> 'e + 'a list" where
  "promise_all [] = Inr []"
| "promise_all (Inl e # rs) = Inl e"
| "promise_all (Inr v # rs) = (case promise_all rs of Inl e \<Rightarrow> Inl e | Inr vs \<Rightarrow> Inr (v # vs))"

section \<open>Application state\<close>

datatype ready_state = CONNECTING | OPEN | CLOSING | CLOSED

datatype permission = Default | Granted | Denied

text \<open>The frames the application sends: \<^verbatim>\<open>{ type: "mark_read", notification_id }\<close>.\<close>

datatype outgoing = Mark_read jsval

datatype request =
    PostLogin
  | GetProfile
  | GetNotifications
  | PostRead jsval
  | DeleteNotification jsval

text \<open>
  The \<^verbatim>\<open>await\<close> at which the one running bootstrap chain (\<^verbatim>\<open>initializeApp\<close> with
  \<^verbatim>\<open>loadUserProfile\<close>, or \<^verbatim>\<open>handleLogin\<close>) is suspended.
\<close>

datatype phase =
    Idle
  | BootProfile
  | BootNotifications
  | LoginAuth
  | LoginProfile
  | LoginNotifications

text \<open>
  The state of \<^verbatim>\<open>NotificationApp\<close> and of its \<^verbatim>\<open>useWebSocket\<close> hook, with the part of
  the browser they act on:
  \<^item> \<open>token\<close>: \<^verbatim>\<open>localStorage[TOKEN_KEY]\<close>;
  \<^item> \<open>user\<close> to \<open>error\<close>: the \<^verbatim>\<open>useState\<close> cells of the component;
  \<^item> \<open>socket\<close> to \<open>connectionError\<close>: the \<^verbatim>\<open>useState\<close> cells of the hook, a socket being
    named by its index in \<open>sockets\<close>;
  \<^item> \<open>sockets\<close>: the \<^verbatim>\<open>readyState\<close> of every \<^verbatim>\<open>WebSocket\<close> constructed so far;
  \<^item> \<open>timers\<close>: the delays of the pending \<^verbatim>\<open>setTimeout\<close> calls;
  \<^item> \<open>permission\<close>: \<^verbatim>\<open>Notification.permission\<close>;
  \<^item> \<open>alerts\<close>: title and body of every \<^verbatim>\<open>new Notification\<close>;
  \<^item> \<open>sent\<close>: the frames handed to \<^verbatim>\<open>socket.send\<close>, with the socket;
  \<^item> \<open>requests\<close>: the REST calls issued;
  \<^item> \<open>phase\<close>: where the bootstrap chain is suspended;
  \<^item> \<open>deps\<close>: the \<^verbatim>\<open>userId\<close> of the last run of the hook's effect;
  \<^item> \<open>cleanup\<close>: the socket held by the cleanup function that run returned.
\<close>

record app =
  token :: "string option"
  user :: jsval
  notifications :: "notification list"
  loading :: bool
  showNotifications :: bool
  error :: "string option"
  socket :: "nat option"
  isConnected :: bool
  connectionError :: "string option"
  sockets :: "ready_state list"
  timers :: "nat list"
  permission :: permission
  alerts :: "(jsval \<times> jsval) list"
  sent :: "(nat \<times> outgoing) list"
  requests :: "request list"
  phase :: phase
  deps :: "jsval option"
  cleanup :: "nat option"

subsection \<open>Auth token\<close>

definition getAuthToken :: "app \<Rightarrow> string option" where
  "getAuthToken s = token s"

definition setAuthToken :: "string \<Rightarrow> app \<Rightarrow> app" where
  "setAuthToken tok s = s\<lparr>token := Some tok\<rparr>"

definition removeAuthToken :: "app \<Rightarrow> app" where
  "removeAuthToken s = s\<lparr>token := None\<rparr>"

text \<open>\<^verbatim>\<open>if (token)\<close>: neither \<^verbatim>\<open>null\<close> nor the empty string.\<close>

definition token_truthy :: "string option \<Rightarrow> bool" where
  "token_truthy t = (case t of None \<Rightarrow> False | Some v \<Rightarrow> v \<noteq> [])"

section \<open>The notification store\<close>

text \<open>The updater of \<^verbatim>\<open>handleNewNotification\<close> (App.jsx, lines 283-290).\<close>

definition exists_in :: "notification \<Rightarrow> notification list \<Rightarrow> bool" where
  "exists_in notification prev = list_ex (\<lambda>n. strict_eq (nid n) (nid notification)) prev"

definition add_notification :: "notification \<Rightarrow> notification list \<Rightarrow> notification list" where
  "add_notification notification prev =
     (if exists_in notification prev then prev else notification # prev)"

text \<open>
  \<^verbatim>\<open>handleNewNotification\<close> (lines 281-299): the store update, then the browser
  notification when the permission is granted.
\<close>

definition handleNewNotification :: "notification \<Rightarrow> app \<Rightarrow> app" where
  "handleNewNotification notification s =
     (let s' = s\<lparr>notifications := add_notification notification (notifications s)\<rparr>
      in if permission s' = Granted
         then s'\<lparr>alerts := alerts s' @ [(title notification, message notification)]\<rparr>
         else s')"

text \<open>
  \<^verbatim>\<open>sendMessage\<close> (lines 213-220), for the socket \<open>sock\<close> that the calling closure holds.
\<close>

definition sendMessage :: "nat option \<Rightarrow> outgoing \<Rightarrow> app \<Rightarrow> app" where
  "sendMessage sock msg s =
     (case sock of
        None \<Rightarrow> s
      | Some i \<Rightarrow>
          if i < length (sockets s) \<and> sockets s ! i = OPEN
          then s\<lparr>sent := sent s @ [(i, msg)]\<rparr> else s)"

subsection \<open>Mark as read\<close>

text \<open>
  \<^verbatim>\<open>markAsRead\<close> (lines 352-373) runs in two parts: up to the \<^verbatim>\<open>await\<close>, which issues the
  REST call, and from the moment the call settles with \<open>r\<close>. The list item calls it, and
  \<^verbatim>\<open>deleteNotification\<close>, with the \<^verbatim>\<open>id\<close> of the stored record it renders (lines 531-536).
\<close>

definition mark_read :: "jsval \<Rightarrow> notification list \<Rightarrow> notification list" where
  "mark_read notificationId prev =
     map (\<lambda>notif. if strict_eq (nid notif) notificationId
                   then notif\<lparr>read := True, is_read := True\<rparr> else notif) prev"

definition markAsRead_call :: "jsval \<Rightarrow> app \<Rightarrow> app" where
  "markAsRead_call notificationId s = s\<lparr>requests := requests s @ [PostRead notificationId]\<rparr>"

definition markAsRead_settled :: "jsval \<Rightarrow> nat option \<Rightarrow> jsval response \<Rightarrow> app \<Rightarrow> app" where
  "markAsRead_settled notificationId sock r s =
     (case api_markNotificationAsRead r of
        Inl e \<Rightarrow> s
      | Inr v \<Rightarrow>
          sendMessage sock (Mark_read notificationId)
            (s\<lparr>notifications := mark_read notificationId (notifications s)\<rparr>))"

definition markAsRead :: "jsval \<Rightarrow> jsval response \<Rightarrow> app \<Rightarrow> app" where
  "markAsRead notificationId r s =
     markAsRead_settled notificationId (socket s) r (markAsRead_call notificationId s)"

subsection \<open>Delete\<close>

text \<open>\<^verbatim>\<open>deleteNotification\<close> (lines 376-385), in the same two parts.\<close>

definition deleteNotification_call :: "jsval \<Rightarrow> app \<Rightarrow> app" where
  "deleteNotification_call notificationId s =
     s\<lparr>requests := requests s @ [DeleteNotification notificationId]\<rparr>"

definition deleteNotification_settled :: "jsval \<Rightarrow> jsval response \<Rightarrow> app \<Rightarrow> app" where
  "deleteNotification_settled notificationId r s =
     (case api_deleteNotification r of
        Inl e \<Rightarrow> s
      | Inr u \<Rightarrow>
          s\<lparr>notifications :=
              filter (\<lambda>notif. \<not> strict_eq (nid notif) notificationId) (notifications s)\<rparr>)"

definition deleteNotification :: "jsval \<Rightarrow> jsval response \<Rightarrow> app \<Rightarrow> app" where
  "deleteNotification notificationId r s =
     deleteNotification_settled notificationId r (deleteNotification_call notificationId s)"

subsection \<open>Mark all as read\<close>

text \<open>
  \<^verbatim>\<open>markAllAsRead\<close> (lines 388-407): one REST call for each unread record of the rendered
  list, then, when \<^verbatim>\<open>Promise.all\<close> over their outcomes \<open>rs\<close> is fulfilled, every record of
  the store is marked.
\<close>

definition unread :: "notification \<Rightarrow> bool" where
  "unread n = (\<not> read n \<and> \<not> is_read n)"

definition unreadNotifications :: "app \<Rightarrow> notification list" where
  "unreadNotifications s = filter unread (notifications s)"

definition markAllAsRead_call :: "app \<Rightarrow> app" where
  "markAllAsRead_call s =
     s\<lparr>requests := requests s @ map (\<lambda>notification. PostRead (nid notification))
                                    (unreadNotifications s)\<rparr>"

definition markAllAsRead_settled :: "jsval response list \<Rightarrow> app \<Rightarrow> app" where
  "markAllAsRead_settled rs s =
     (case promise_all (map api_markNotificationAsRead rs) of
        Inl e \<Rightarrow> s
      | Inr vs \<Rightarrow>
          s\<lparr>notifications :=
              map (\<lambda>notif. notif\<lparr>read := True, is_read := True\<rparr>) (notifications s)\<rparr>)"

text \<open>The whole operation, \<open>respond i\<close> being what the backend answers for the record \<open>i\<close>.\<close>

definition markAllAsRead :: "(jsval \<Rightarrow> jsval response) \<Rightarrow> app \<Rightarrow> app" where
  "markAllAsRead respond s =
     markAllAsRead_settled (map (\<lambda>notification. respond (nid notification))
                                (unreadNotifications s))
                           (markAllAsRead_call s)"

section \<open>The push channel\<close>

text \<open>
  The effect of \<^verbatim>\<open>useWebSocket\<close> (lines 136-211). Its body either returns early, with no
  cleanup function, or constructs a socket and returns the cleanup function that holds it.
\<close>

definition useWebSocket_effect :: "jsval \<Rightarrow> app \<Rightarrow> app" where
  "useWebSocket_effect userId s =
     (if \<not> truthy userId then s\<lparr>cleanup := None\<rparr>
      else if \<not> token_truthy (getAuthToken s)
      then s\<lparr>connectionError := Some ''No authentication token'', cleanup := None\<rparr>
      else s\<lparr>sockets := sockets s @ [CONNECTING], cleanup := Some (length (sockets s))\<rparr>)"

text \<open>The cleanup function (lines 206-210): \<^verbatim>\<open>ws.close(1000, ...)\<close> on an open socket only.\<close>

definition useWebSocket_cleanup :: "app \<Rightarrow> app" where
  "useWebSocket_cleanup s =
     (case cleanup s of
        None \<Rightarrow> s
      | Some i \<Rightarrow>
          if i < length (sockets s) \<and> sockets s ! i = OPEN
          then s\<lparr>sockets := (sockets s)[i := CLOSING]\<rparr> else s)"

text \<open>\<^verbatim>\<open>user?.id\<close> (line 303).\<close>

definition optional_id :: "jsval \<Rightarrow> jsval" where
  "optional_id u = (case get_prop u ''id'' of Inl e \<Rightarrow> JUndefined | Inr v \<Rightarrow> v)"

text \<open>
  A commit of React: the effect has the dependencies \<^verbatim>\<open>[userId, onMessage]\<close>, of which
  \<^verbatim>\<open>onMessage\<close> never changes (\<^verbatim>\<open>useCallback\<close> with no dependencies), so it runs again,
  after the cleanup of its last run, when \<^verbatim>\<open>userId\<close> has changed. React compares with
  \<^verbatim>\<open>Object.is\<close>: equality of the value, for an array or object with its address. The second
  run of every effect that \<^verbatim>\<open>StrictMode\<close> adds in a development build is not part of the
  model.
\<close>

definition commit :: "app \<Rightarrow> app" where
  "commit s =
     (let userId = optional_id (user s)
      in if deps s = Some userId then s
         else useWebSocket_effect userId ((useWebSocket_cleanup s)\<lparr>deps := Some userId\<rparr>))"

text \<open>\<^verbatim>\<open>ws.onopen\<close> (lines 151-156), for the socket \<open>i\<close>.\<close>

definition ws_onopen :: "nat \<Rightarrow> app \<Rightarrow> app" where
  "ws_onopen i s = s\<lparr>isConnected := True, connectionError := None, socket := Some i\<rparr>"

text \<open>
  \<^verbatim>\<open>ws.onclose\<close> (lines 186-198). The callback of the timer only writes to the console, so
  a timer is its delay.
\<close>

definition ws_onclose :: "nat \<Rightarrow> app \<Rightarrow> app" where
  "ws_onclose code s =
     (let s' = s\<lparr>isConnected := False, socket := None\<rparr>
      in if code \<noteq> 1000 then s'\<lparr>timers := timers s' @ [5000]\<rparr> else s')"

text \<open>The oldest timer fires: its callback (lines 193-196) changes nothing.\<close>

definition timeout :: "app \<Rightarrow> app" where
  "timeout s = (case timers s of [] \<Rightarrow> s | t # ts \<Rightarrow> s\<lparr>timers := ts\<rparr>)"

text \<open>\<^verbatim>\<open>ws.onerror\<close> (lines 200-204).\<close>

definition ws_onerror :: "app \<Rightarrow> app" where
  "ws_onerror s = s\<lparr>connectionError := Some ''Connection failed'', isConnected := False\<rparr>"

text \<open>
  The readings of the clock in \<^verbatim>\<open>ws.onmessage\<close>: \<^verbatim>\<open>Date.now().toString()\<close> and the two
  \<^verbatim>\<open>new Date().toISOString()\<close>.
\<close>

record clock =
  now_ms :: string
  iso_timestamp :: string
  iso_created_at :: string

text \<open>The record handed to \<^verbatim>\<open>onMessage\<close> (lines 166-177).\<close>

definition pushed_notification :: "clock \<Rightarrow> jsval \<Rightarrow> js_error + notification" where
  "pushed_notification clk notificationData =
     and_then (get_prop notificationData ''id'') (\<lambda>i.
     and_then (get_prop notificationData ''title'') (\<lambda>t.
     and_then (get_prop notificationData ''message'') (\<lambda>m.
     and_then (get_prop notificationData ''type'') (\<lambda>ty.
     and_then (get_prop notificationData ''notification_type'') (\<lambda>nt.
     and_then (get_prop notificationData ''data'') (\<lambda>d.
     and_then (get_prop notificationData ''created_at'') (\<lambda>c.
       Inr \<lparr>nid = js_or i (JStr (now_ms clk)),
            title = t,
            message = m,
            notification_type = js_or ty nt,
            data = d,
            timestamp = js_or c (JStr (iso_timestamp clk)),
            created_at = js_or c (JStr (iso_created_at clk)),
            read = False,
            is_read = False\<rparr>)))))))"

text \<open>
  An inbound frame, by what \<^verbatim>\<open>JSON.parse(event.data)\<close> does with it: it throws a
  SyntaxError, or returns a value.
\<close>

datatype frame = Unparseable string | Parsed jsval

text \<open>
  The \<^verbatim>\<open>try\<close> block of \<^verbatim>\<open>ws.onmessage\<close> (lines 159-180); the branch for
  \<^verbatim>\<open>unread_count\<close> only writes to the console.
\<close>

definition onmessage_try :: "clock \<Rightarrow> frame \<Rightarrow> app \<Rightarrow> js_error + app" where
  "onmessage_try clk ev s =
     (case ev of
        Unparseable m \<Rightarrow> Inl (SyntaxError m)
      | Parsed d \<Rightarrow>
          and_then (get_prop d ''type'') (\<lambda>ty.
            if strict_eq ty (JStr ''notification'')
            then and_then (get_prop d ''data'') (\<lambda>notificationData.
                 and_then (pushed_notification clk notificationData) (\<lambda>n.
                   Inr (handleNewNotification n s)))
            else if strict_eq ty (JStr ''unread_count'') then Inr s
            else Inr s))"

text \<open>
  \<^verbatim>\<open>ws.onmessage\<close> (lines 158-184): the \<^verbatim>\<open>catch\<close> writes the error to the console. The
  result is \<open>Inl\<close> for an exception that leaves the handler.
\<close>

definition ws_onmessage :: "clock \<Rightarrow> frame \<Rightarrow> app \<Rightarrow> js_error + app" where
  "ws_onmessage clk ev s =
     (case onmessage_try clk ev s of Inl e \<Rightarrow> Inr s | Inr s' \<Rightarrow> Inr s')"

section \<open>Bootstrap, login and logout\<close>

text \<open>
  \<^verbatim>\<open>loadUserProfile\<close> (lines 253-278) as \<^verbatim>\<open>initializeApp\<close> (lines 234-247) calls it. A
  failure runs the \<^verbatim>\<open>catch\<close> and \<^verbatim>\<open>finally\<close> of \<^verbatim>\<open>loadUserProfile\<close>, then the
  \<^verbatim>\<open>catch\<close> of \<^verbatim>\<open>initializeApp\<close> and its \<^verbatim>\<open>setLoading(false)\<close>.
\<close>

definition loadUserProfile_failed :: "app \<Rightarrow> app" where
  "loadUserProfile_failed s =
     (removeAuthToken (removeAuthToken (s\<lparr>error := Some ''Failed to load user data''\<rparr>)))
       \<lparr>user := JNull, loading := False, phase := Idle\<rparr>"

definition initializeApp :: "app \<Rightarrow> app" where
  "initializeApp s =
     (if token_truthy (getAuthToken s)
      then s\<lparr>loading := True, requests := requests s @ [GetProfile], phase := BootProfile\<rparr>
      else s\<lparr>loading := False\<rparr>)"

definition loadUserProfile_profile :: "jsval response \<Rightarrow> app \<Rightarrow> app" where
  "loadUserProfile_profile r s =
     (case api_getProfile r of
        Inl e \<Rightarrow> loadUserProfile_failed s
      | Inr profileData \<Rightarrow>
          s\<lparr>user := profileData, requests := requests s @ [GetNotifications],
            phase := BootNotifications\<rparr>)"

definition loadUserProfile_notifications :: "notifications_data response \<Rightarrow> app \<Rightarrow> app" where
  "loadUserProfile_notifications r s =
     (case and_then (api_getNotifications r) notificationsList of
        Inl e \<Rightarrow> loadUserProfile_failed s
      | Inr xs \<Rightarrow> s\<lparr>notifications := xs, error := None, loading := False, phase := Idle\<rparr>)"

text \<open>
  \<^verbatim>\<open>handleLogin\<close> (lines 315-340). \<^verbatim>\<open>api.login\<close> is taken by its outcome: the error it
  throws, or the string that its \<^verbatim>\<open>setAuthToken(data.access_token)\<close> stores.
\<close>

fun error_message :: "js_error \<Rightarrow> string" where
  "error_message (Error m) = m"
| "error_message (TypeError m) = m"
| "error_message (SyntaxError m) = m"

definition handleLogin_failed :: "js_error \<Rightarrow> app \<Rightarrow> app" where
  "handleLogin_failed e s =
     s\<lparr>error := Some (if error_message e \<noteq> [] then error_message e else ''Login failed''),
       loading := False, phase := Idle\<rparr>"

definition handleLogin :: "app \<Rightarrow> app" where
  "handleLogin s =
     s\<lparr>loading := True, error := None, requests := requests s @ [PostLogin],
       phase := LoginAuth\<rparr>"

definition handleLogin_login :: "js_error + string \<Rightarrow> app \<Rightarrow> app" where
  "handleLogin_login r s =
     (case r of
        Inl e \<Rightarrow> handleLogin_failed e s
      | Inr tok \<Rightarrow>
          (setAuthToken tok s)\<lparr>requests := requests s @ [GetProfile], phase := LoginProfile\<rparr>)"

definition handleLogin_profile :: "jsval response \<Rightarrow> app \<Rightarrow> app" where
  "handleLogin_profile r s =
     (case api_getProfile r of
        Inl e \<Rightarrow> handleLogin_failed e s
      | Inr profileData \<Rightarrow>
          s\<lparr>user := profileData, requests := requests s @ [GetNotifications],
            phase := LoginNotifications\<rparr>)"

definition handleLogin_notifications :: "notifications_data response \<Rightarrow> app \<Rightarrow> app" where
  "handleLogin_notifications r s =
     (case and_then (api_getNotifications r) notificationsList of
        Inl e \<Rightarrow> handleLogin_failed e s
      | Inr xs \<Rightarrow> s\<lparr>notifications := xs, loading := False, phase := Idle\<rparr>)"

text \<open>\<^verbatim>\<open>handleLogout\<close> (lines 343-349).\<close>

definition handleLogout :: "app \<Rightarrow> app" where
  "handleLogout s =
     (removeAuthToken s)
       \<lparr>user := JNull, notifications := [], showNotifications := False, error := None\<rparr>"

section \<open>Sessions\<close>

text \<open>
  What happens to a mounted application, one handler at a time (each runs to completion):
  a commit of React, the settlement of the REST call the bootstrap chain awaits, the user
  submitting the login form or logging out, the events of a socket, a timer firing, the
  user answering the permission prompt. An event that cannot happen in a state leaves it
  as it is: the login form is rendered when \<^verbatim>\<open>!loading && !user\<close> and the header with the
  logout button when \<^verbatim>\<open>!loading && user\<close> (lines 412-425); a socket receives messages
  while it is open and closes once.
\<close>

datatype event =
    Commit
  | ProfileSettled "jsval response"
  | NotificationsSettled "notifications_data response"
  | LoginSubmit
  | LoginSettled "js_error + string"
  | Logout
  | WsOpen nat
  | WsMessage nat clock frame
  | WsError nat
  | WsClose nat nat
  | Timeout
  | PermissionSet permission

fun step :: "app \<Rightarrow> event \<Rightarrow> app" where
  "step s Commit = commit s"
| "step s (ProfileSettled r) =
     (if phase s = BootProfile then loadUserProfile_profile r s
      else if phase s = LoginProfile then handleLogin_profile r s
      else s)"
| "step s (NotificationsSettled r) =
     (if phase s = BootNotifications then loadUserProfile_notifications r s
      else if phase s = LoginNotifications then handleLogin_notifications r s
      else s)"
| "step s LoginSubmit =
     (if \<not> loading s \<and> \<not> truthy (user s) \<and> phase s = Idle then handleLogin s else s)"
| "step s (LoginSettled r) = (if phase s = LoginAuth then handleLogin_login r s else s)"
| "step s Logout = (if \<not> loading s \<and> truthy (user s) then handleLogout s else s)"
| "step s (WsOpen i) =
     (if i < length (sockets s) \<and> sockets s ! i = CONNECTING
      then ws_onopen i (s\<lparr>sockets := (sockets s)[i := OPEN]\<rparr>) else s)"
| "step s (WsMessage i clk ev) =
     (if i < length (sockets s) \<and> sockets s ! i = OPEN
      then (case ws_onmessage clk ev s of Inl e \<Rightarrow> s | Inr s' \<Rightarrow> s') else s)"
| "step s (WsError i) =
     (if i < length (sockets s) \<and> sockets s ! i \<noteq> CLOSED then ws_onerror s else s)"
| "step s (WsClose i code) =
     (if i < length (sockets s) \<and> sockets s ! i \<noteq> CLOSED
      then ws_onclose code (s\<lparr>sockets := (sockets s)[i := CLOSED]\<rparr>) else s)"
| "step s Timeout = timeout s"
| "step s (PermissionSet p) = s\<lparr>permission := p\<rparr>"

text \<open>
  The state after the first render (the \<^verbatim>\<open>useState\<close> initial values), for the stored token
  and the permission found, and the state after mounting: the effects run in the order of
  the hooks, \<^verbatim>\<open>initializeApp\<close> before the effect of \<^verbatim>\<open>useWebSocket\<close>.
\<close>

definition initial :: "string option \<Rightarrow> permission \<Rightarrow> app" where
  "initial tok perm =
     \<lparr>token = tok, user = JNull, notifications = [], loading = True,
      showNotifications = False, error = None, socket = None, isConnected = False,
      connectionError = None, sockets = [], timers = [], permission = perm, alerts = [],
      sent = [], requests = [], phase = Idle, deps = None, cleanup = None\<rparr>"

definition mounted :: "string option \<Rightarrow> permission \<Rightarrow> app" where
  "mounted tok perm = commit (initializeApp (initial tok perm))"

definition session :: "string option \<Rightarrow> permission \<Rightarrow> event list \<Rightarrow> app" where
  "session tok perm evs = foldl step (mounted tok perm) evs"

section \<open>Properties of the store and of sessions\<close>



section \<open>Example data\<close>

definition example_n1 :: notification where
  "example_n1 =
     \<lparr>nid = JNum 1, title = JStr ''one'', message = JStr ''first'',
      notification_type = JStr ''info'', data = JNull, timestamp = JStr ''t1'',
      created_at = JStr ''t1'', read = False, is_read = False\<rparr>"

definition example_n2 :: notification where
  "example_n2 =
     \<lparr>nid = JNum 2, title = JStr ''two'', message = JStr ''second'',
      notification_type = JStr ''info'', data = JNull, timestamp = JStr ''t2'',
      created_at = JStr ''t2'', read = False, is_read = False\<rparr>"

definition example_n3 :: notification where
  "example_n3 =
     \<lparr>nid = JStr ''c'', title = JStr ''three'', message = JStr ''third'',
      notification_type = JStr ''warning'', data = JNull, timestamp = JStr ''t3'',
      created_at = JStr ''t3'', read = True, is_read = True\<rparr>"

definition example_n4 :: notification where
  "example_n4 =
     \<lparr>nid = JNum 4, title = JStr ''four'', message = JStr ''fourth'',
      notification_type = JStr ''info'', data = JNull, timestamp = JStr ''t4'',
      created_at = JStr ''t4'', read = False, is_read = False\<rparr>"


definition example_profile :: "jsval response" where
  "example_profile = Response True (Inr (JObj 1 [(''id'', JNum 7), (''email'', JStr ''a@b.c'')]))"

definition example_profile2 :: "jsval response" where
  "example_profile2 =
     Response True (Inr (JObj 2 [(''id'', JNum 8), (''email'', JStr ''d@e.f'')]))"

definition example_clock :: clock where
  "example_clock =
     \<lparr>now_ms = ''1700000000000'', iso_timestamp = ''2023-11-14T22:13:20.000Z'',
      iso_created_at = ''2023-11-14T22:13:20.000Z''\<rparr>"






text \<open>A stored record whose \<^verbatim>\<open>id\<close> is an array.\<close>

definition example_arr :: notification where
  "example_arr =
     \<lparr>nid = JArr 40 [JNum 1], title = JStr ''array'', message = JStr ''id'',
      notification_type = JStr ''info'', data = JNull, timestamp = JStr ''t6'',
      created_at = JStr ''t6'', read = False, is_read = False\<rparr>"




text \<open>A frame of no recognized type.\<close>

definition example_ping :: jsval where
  "example_ping = JObj 30 [(''type'', JStr ''ping'')]"

text \<open>
  A live session for the stored token \<^verbatim>\<open>tok\<close>, with the permission granted: the profile
  and the list \<open>xs\<close> are fetched, React commits, the socket opens.
\<close>

definition example_live :: "notification list \<Rightarrow> app" where
  "example_live xs =
     session (Some ''tok'') Granted
       [ProfileSettled example_profile,
        NotificationsSettled (Response True (Inr (Bare xs))),
        Commit,
        WsOpen 0]"

text \<open>A backend that refuses to mark the record 2, and one that accepts every record.\<close>

definition example_respond :: "jsval \<Rightarrow> jsval response" where
  "example_respond i =
     (if i = JNum 2 then Response False (Inr JNull) else Response True (Inr (JObj 3 [])))"

definition example_accept :: "jsval \<Rightarrow> jsval response" where
  "example_accept i = Response True (Inr (JObj 3 []))"


definition example_seed :: event where
  "example_seed = NotificationsSettled (Response True (Inr (Bare [example_n1, example_n2])))"

text \<open>
  A session with two sockets: the first is still connecting when the user logs out (the
  cleanup closes an open socket only), the second belongs to the next login. Both then
  close with the code 1006.
\<close>

definition example_two_closures :: "event list" where
  "example_two_closures =
     [ProfileSettled example_profile,
      Commit,
      example_seed,
      Logout,
      Commit,
      LoginSubmit,
      LoginSettled (Inr ''tok2''),
      ProfileSettled example_profile2,
      Commit,
      WsClose 0 1006,
      WsClose 1 1006]"

section \<open>Auxiliary facts\<close>

lemma strict_eq_sym: "strict_eq a b = strict_eq b a"
  by (cases a; cases b) auto

lemma strict_eq_refl: "strict_eq a a"
  by (cases a) auto





lemma promise_all_Inr: "(\<exists>vs. promise_all rs = Inr vs) = (\<forall>r\<in>set rs. \<not> isl r)"
  by (induction rs rule: promise_all.induct) (auto split: sum.splits)

lemma promise_all_fulfilled:
  assumes "\<forall>r\<in>set rs. \<not> isl r"
  shows "\<exists>vs. promise_all rs = Inr vs"
  using assms promise_all_Inr[of rs] by simp

lemma promise_all_rejected:
  assumes "\<exists>r\<in>set rs. isl r"
  shows "\<exists>e. promise_all rs = Inl e"
proof (cases "promise_all rs")
  case (Inl e)
  then show ?thesis by simp
next
  case (Inr vs)
  with assms promise_all_Inr[of rs] show ?thesis by auto
qed










lemma markAllAsRead_settled_eq:
  "markAllAsRead_settled rs s =
     (if \<forall>r\<in>set rs. \<not> isl (api_markNotificationAsRead r)
      then s\<lparr>notifications :=
               map (\<lambda>notif. notif\<lparr>read := True, is_read := True\<rparr>) (notifications s)\<rparr>
      else s)"
proof (cases "\<forall>r\<in>set rs. \<not> isl (api_markNotificationAsRead r)")
  case True
  then have "\<forall>r\<in>set (map api_markNotificationAsRead rs). \<not> isl r"
    by simp
  from promise_all_fulfilled[OF this] obtain vs where
    "promise_all (map api_markNotificationAsRead rs) = Inr vs" ..
  with True show ?thesis
    by (simp add: markAllAsRead_settled_def)
next
  case False
  then have "\<exists>r\<in>set (map api_markNotificationAsRead rs). isl r"
    by simp
  from promise_all_rejected[OF this] obtain e where
    "promise_all (map api_markNotificationAsRead rs) = Inl e" ..
  with False show ?thesis
    by (auto simp: markAllAsRead_settled_def)
qed

lemma timers_ws_onclose:
  "timers (ws_onclose code s) = (if code \<noteq> 1000 then timers s @ [5000] else timers s)"
  by (simp add: ws_onclose_def Let_def)

text \<open>Closures handled one after the other: every abnormal one adds a timer.\<close>

lemma timers_closures:
  "length (timers (foldl (\<lambda>s' code. ws_onclose code s') s codes)) =
     length (timers s) + length (filter (\<lambda>code. code \<noteq> 1000) codes)"
proof (induction codes rule: rev_induct)
  case Nil
  show ?case by simp
next
  case (snoc code codes)
  then show ?case by (simp add: timers_ws_onclose)
qed

section \<open>The claims\<close>

text \<open>
  C1, as the code has it. Mark-all-read issues one remote confirmation for each unread
  record, which leaves the store as it is, and is then all or nothing: when every
  confirmation succeeds, every record of the store has both read flags set; when the
  confirmation of one record fails, the state is left as it was, also for the records
  whose confirmation succeeded.
\<close>

theorem markAllAsRead_all_or_nothing:
  "requests (markAllAsRead_call s) =
     requests s @ map (\<lambda>n. PostRead (nid n)) (unreadNotifications s)
   \<and> notifications (markAllAsRead_call s) = notifications s
   \<and> markAllAsRead_settled rs s' =
       (if \<forall>r\<in>set rs. \<not> isl (api_markNotificationAsRead r)
        then s'\<lparr>notifications :=
                  map (\<lambda>notif. notif\<lparr>read := True, is_read := True\<rparr>) (notifications s')\<rparr>
        else s')
   \<and> requests (markAllAsRead respond s) =
       requests s @ map (\<lambda>n. PostRead (nid n)) (unreadNotifications s)
   \<and> notifications (markAllAsRead respond s) =
       (if \<forall>n\<in>set (unreadNotifications s).
             \<not> isl (api_markNotificationAsRead (respond (nid n)))
        then map (\<lambda>notif. notif\<lparr>read := True, is_read := True\<rparr>) (notifications s)
        else notifications s)"
proof (intro conjI)
  show "requests (markAllAsRead_call s) =
          requests s @ map (\<lambda>n. PostRead (nid n)) (unreadNotifications s)"
    by (simp add: markAllAsRead_call_def)
  show "notifications (markAllAsRead_call s) = notifications s"
    by (simp add: markAllAsRead_call_def)
  show "markAllAsRead_settled rs s' =
       (if \<forall>r\<in>set rs. \<not> isl (api_markNotificationAsRead r)
        then s'\<lparr>notifications :=
                  map (\<lambda>notif. notif\<lparr>read := True, is_read := True\<rparr>) (notifications s')\<rparr>
        else s')"
    by (rule markAllAsRead_settled_eq)
  show "requests (markAllAsRead respond s) =
          requests s @ map (\<lambda>n. PostRead (nid n)) (unreadNotifications s)"
    by (simp add: markAllAsRead_def markAllAsRead_settled_eq markAllAsRead_call_def)
  show "notifications (markAllAsRead respond s) =
       (if \<forall>n\<in>set (unreadNotifications s).
             \<not> isl (api_markNotificationAsRead (respond (nid n)))
        then map (\<lambda>notif. notif\<lparr>read := True, is_read := True\<rparr>) (notifications s)
        else notifications s)"
    by (simp add: markAllAsRead_def markAllAsRead_settled_eq markAllAsRead_call_def)
qed

text \<open>
  C1, witness: on a store of two unread records two confirmations are issued; a backend
  that accepts both leaves both read, and a backend that refuses the second leaves the
  store as it was.
\<close>

theorem markAllAsRead_all_or_nothing_witness:
  "requests (markAllAsRead example_respond (example_live [example_n1, example_n2])) =
     [GetProfile, GetNotifications, PostRead (JNum 1), PostRead (JNum 2)]
   \<and> notifications (markAllAsRead example_accept (example_live [example_n1, example_n2])) =
     [example_n1\<lparr>read := True, is_read := True\<rparr>, example_n2\<lparr>read := True, is_read := True\<rparr>]
   \<and> notifications (markAllAsRead example_respond (example_live [example_n1, example_n2])) =
     [example_n1, example_n2]"
proof -
  let ?s = "example_live [example_n1, example_n2]"
  have st: "notifications ?s = [example_n1, example_n2]"
    by code_simp
  have rq: "requests ?s @ map (\<lambda>n. PostRead (nid n)) (unreadNotifications ?s) =
              [GetProfile, GetNotifications, PostRead (JNum 1), PostRead (JNum 2)]"
    by code_simp
  have a: "\<forall>n\<in>set (unreadNotifications ?s).
             \<not> isl (api_markNotificationAsRead (example_accept (nid n)))"
    by code_simp
  have b: "\<not> (\<forall>n\<in>set (unreadNotifications ?s).
             \<not> isl (api_markNotificationAsRead (example_respond (nid n))))"
    by code_simp
  from markAllAsRead_all_or_nothing[of ?s "[]" ?s example_accept]
  have ta: "notifications (markAllAsRead example_accept ?s) =
       (if \<forall>n\<in>set (unreadNotifications ?s).
             \<not> isl (api_markNotificationAsRead (example_accept (nid n)))
        then map (\<lambda>notif. notif\<lparr>read := True, is_read := True\<rparr>) (notifications ?s)
        else notifications ?s)"
    by blast
  from markAllAsRead_all_or_nothing[of ?s "[]" ?s example_respond]
  have tb: "notifications (markAllAsRead example_respond ?s) =
       (if \<forall>n\<in>set (unreadNotifications ?s).
             \<not> isl (api_markNotificationAsRead (example_respond (nid n)))
        then map (\<lambda>notif. notif\<lparr>read := True, is_read := True\<rparr>) (notifications ?s)
        else notifications ?s)"
    and tr: "requests (markAllAsRead example_respond ?s) =
       requests ?s @ map (\<lambda>n. PostRead (nid n)) (unreadNotifications ?s)"
    by blast+
  have "notifications (markAllAsRead example_accept ?s) =
          map (\<lambda>notif. notif\<lparr>read := True, is_read := True\<rparr>) (notifications ?s)"
    by (rule trans[OF ta if_P[OF a]])
  moreover have "notifications (markAllAsRead example_respond ?s) = notifications ?s"
    by (rule trans[OF tb if_not_P[OF b]])
  ultimately show ?thesis
    using tr rq by (simp add: st)
qed

text \<open>
  C1 as stated fails: the backend confirms the record 1 and refuses the record 2, and the
  record 1 is still unread in the store afterwards.
\<close>

theorem markAllAsRead_partial_counterexample:
  "api_markNotificationAsRead (example_respond (nid example_n1)) = Inr (JObj 3 [])
   \<and> notifications (markAllAsRead example_respond (example_live [example_n1, example_n2])) =
       [example_n1, example_n2]
   \<and> unread example_n1"
  by code_simp

text \<open>
  C2, as the code has it. The read mutation is applied after the confirmation, not before:
  issuing the call adds the request and leaves the store as it is, a failed call (no
  response, a response that is not ok, a body that is not JSON) leaves the whole state as
  it is, and a successful call sets both read flags of the records whose id is \<^verbatim>\<open>===\<close> to
  the id given, so of a stored record marked by its own id, and sends the
  \<^verbatim>\<open>mark_read\<close> frame. The records carry no marker of a pending mutation.
\<close>

theorem markAsRead_after_confirmation:
  "requests (markAsRead_call i s) = requests s @ [PostRead i]
   \<and> notifications (markAsRead_call i s) = notifications s
   \<and> markAsRead_settled i sock (NetworkFailure m) s = s
   \<and> markAsRead_settled i sock (Response False b) s = s
   \<and> markAsRead_settled i sock (Response True (Inl m)) s = s
   \<and> markAsRead i (NetworkFailure m) s = markAsRead_call i s
   \<and> markAsRead i (Response False b) s = markAsRead_call i s
   \<and> markAsRead i (Response True (Inl m)) s = markAsRead_call i s
   \<and> markAsRead_settled i sock (Response True (Inr v)) s =
       sendMessage sock (Mark_read i) (s\<lparr>notifications := mark_read i (notifications s)\<rparr>)
   \<and> notifications (markAsRead_settled i sock (Response True (Inr v)) s) =
       mark_read i (notifications s)
   \<and> notifications (markAsRead i (Response True (Inr v)) s) = mark_read i (notifications s)
   \<and> (\<forall>n\<in>set (notifications (markAsRead_settled i sock (Response True (Inr v)) s)).
         strict_eq (nid n) i \<longrightarrow> read n \<and> is_read n)
   \<and> (\<forall>n\<in>set (notifications s).
         n\<lparr>read := True, is_read := True\<rparr> \<in>
           set (notifications (markAsRead_settled (nid n) sock (Response True (Inr v)) s)))"
proof (intro conjI)
  note defs = markAsRead_def markAsRead_call_def markAsRead_settled_def
    api_markNotificationAsRead_def json_body_def
  show "requests (markAsRead_call i s) = requests s @ [PostRead i]"
    by (simp add: defs)
  show "notifications (markAsRead_call i s) = notifications s"
    by (simp add: defs)
  show "markAsRead_settled i sock (NetworkFailure m) s = s"
    by (simp add: defs)
  show "markAsRead_settled i sock (Response False b) s = s"
    by (simp add: defs)
  show "markAsRead_settled i sock (Response True (Inl m)) s = s"
    by (simp add: defs)
  show "markAsRead i (NetworkFailure m) s = markAsRead_call i s"
    by (simp add: defs)
  show "markAsRead i (Response False b) s = markAsRead_call i s"
    by (simp add: defs)
  show "markAsRead i (Response True (Inl m)) s = markAsRead_call i s"
    by (simp add: defs)
  show "markAsRead_settled i sock (Response True (Inr v)) s =
       sendMessage sock (Mark_read i) (s\<lparr>notifications := mark_read i (notifications s)\<rparr>)"
    by (simp add: defs)
  have store: "notifications (markAsRead_settled j sock' (Response True (Inr v)) t) =
                 mark_read j (notifications t)" for j sock' t
    by (simp add: defs sendMessage_def split: option.splits)
  show "notifications (markAsRead_settled i sock (Response True (Inr v)) s) =
       mark_read i (notifications s)"
    by (rule store)
  show "notifications (markAsRead i (Response True (Inr v)) s) = mark_read i (notifications s)"
    unfolding markAsRead_def store by (simp add: markAsRead_call_def)
  show "\<forall>n\<in>set (notifications (markAsRead_settled i sock (Response True (Inr v)) s)).
         strict_eq (nid n) i \<longrightarrow> read n \<and> is_read n"
    unfolding store by (auto simp: mark_read_def)
  show "\<forall>n\<in>set (notifications s).
         n\<lparr>read := True, is_read := True\<rparr> \<in>
           set (notifications (markAsRead_settled (nid n) sock (Response True (Inr v)) s))"
  proof
    fix n assume n: "n \<in> set (notifications s)"
    let ?f = "\<lambda>notif. if strict_eq (nid notif) (nid n)
                       then notif\<lparr>read := True, is_read := True\<rparr> else notif"
    have "?f n = n\<lparr>read := True, is_read := True\<rparr>"
      by (simp add: strict_eq_refl)
    moreover from n have "?f n \<in> ?f ` set (notifications s)"
      by (rule imageI)
    ultimately have "n\<lparr>read := True, is_read := True\<rparr> \<in> set (mark_read (nid n) (notifications s))"
      by (simp add: mark_read_def)
    then show "n\<lparr>read := True, is_read := True\<rparr> \<in>
           set (notifications (markAsRead_settled (nid n) sock (Response True (Inr v)) s))"
      unfolding store .
  qed
qed

text \<open>
  C2, witness: the record 1 of a live store is unread while the call is pending and read
  once the call has succeeded; the record whose id is an array is read once it has been
  marked by its own id.
\<close>

theorem markAsRead_after_confirmation_witness:
  "notifications (markAsRead_call (JNum 1) (example_live [example_n1, example_n2])) =
     [example_n1, example_n2]
   \<and> example_n1\<lparr>read := True, is_read := True\<rparr> \<in>
       set (notifications (markAsRead_settled (JNum 1) (Some 0) (Response True (Inr JNull))
              (example_live [example_n1, example_n2])))
   \<and> strict_eq (nid (example_n1\<lparr>read := True, is_read := True\<rparr>)) (JNum 1)
   \<and> read (example_n1\<lparr>read := True, is_read := True\<rparr>)
   \<and> example_arr \<in> set (notifications (example_live [example_n1, example_arr]))
   \<and> notifications (markAsRead_settled (nid example_arr) (Some 0) (Response True (Inr JNull))
        (example_live [example_n1, example_arr])) =
       [example_n1, example_arr\<lparr>read := True, is_read := True\<rparr>]"
proof -
  let ?s = "example_live [example_n1, example_n2]"
  let ?t = "example_live [example_n1, example_arr]"
  let ?n = "example_n1\<lparr>read := True, is_read := True\<rparr>"
  have st: "notifications ?s = [example_n1, example_n2]"
    by code_simp
  have mem: "?n \<in> set (notifications (markAsRead_settled (JNum 1) (Some 0)
                         (Response True (Inr JNull)) ?s))"
    by code_simp
  have eq: "strict_eq (nid ?n) (JNum 1)"
    by code_simp
  from markAsRead_after_confirmation[of "JNum 1" ?s "Some 0" "[]" "Inr JNull" JNull]
  have c: "notifications (markAsRead_call (JNum 1) ?s) = notifications ?s"
    and r: "\<forall>n\<in>set (notifications (markAsRead_settled (JNum 1) (Some 0)
                        (Response True (Inr JNull)) ?s)).
              strict_eq (nid n) (JNum 1) \<longrightarrow> read n \<and> is_read n"
    by blast+
  from r mem eq have rd: "read ?n" by blast
  have am: "example_arr \<in> set (notifications ?t)"
    by code_simp
  have mk: "mark_read (nid example_arr) (notifications ?t) =
              [example_n1, example_arr\<lparr>read := True, is_read := True\<rparr>]"
    by code_simp
  from markAsRead_after_confirmation[of "nid example_arr" ?t "Some 0" "[]" "Inr JNull" JNull]
  have "notifications (markAsRead_settled (nid example_arr) (Some 0)
          (Response True (Inr JNull)) ?t) = mark_read (nid example_arr) (notifications ?t)"
    by blast
  with mk have ar: "notifications (markAsRead_settled (nid example_arr) (Some 0)
          (Response True (Inr JNull)) ?t) =
            [example_n1, example_arr\<lparr>read := True, is_read := True\<rparr>]"
    by simp
  from c st mem eq rd am ar show ?thesis by simp
qed

text \<open>
  C2 as stated fails: with the call issued and not yet settled the record 1 is unread in
  the store, and it is still unread when the call has failed.
\<close>

theorem markAsRead_optimistic_counterexample:
  "requests (markAsRead_call (JNum 1) (example_live [example_n1])) =
     [GetProfile, GetNotifications, PostRead (JNum 1)]
   \<and> notifications (markAsRead_call (JNum 1) (example_live [example_n1])) = [example_n1]
   \<and> notifications (markAsRead (JNum 1) (Response False (Inr JNull))
        (example_live [example_n1])) = [example_n1]
   \<and> unread example_n1"
  by code_simp




text \<open>
  C4, as the code has it. Every closure of the push connection with a code other than 1000
  arms one timer with the fixed delay of 5000 ms, and a closure with the code 1000 arms
  none. The arming is unconditional: the timer is added to those already pending, so
  after any number of closures there is one more pending timer for each abnormal one.
\<close>

theorem onclose_arms_timer:
  "timers (ws_onclose code s) = (if code \<noteq> 1000 then timers s @ [5000] else timers s)
   \<and> (i < length (sockets s) \<and> sockets s ! i \<noteq> CLOSED \<longrightarrow>
        timers (step s (WsClose i code)) =
          (if code \<noteq> 1000 then timers s @ [5000] else timers s))
   \<and> length (timers (foldl (\<lambda>s' code. ws_onclose code s') s codes)) =
        length (timers s) + length (filter (\<lambda>code. code \<noteq> 1000) codes)"
proof (intro conjI)
  show "timers (ws_onclose code s) = (if code \<noteq> 1000 then timers s @ [5000] else timers s)"
    by (rule timers_ws_onclose)
  show "i < length (sockets s) \<and> sockets s ! i \<noteq> CLOSED \<longrightarrow>
        timers (step s (WsClose i code)) =
          (if code \<noteq> 1000 then timers s @ [5000] else timers s)"
    by (simp add: timers_ws_onclose)
  show "length (timers (foldl (\<lambda>s' code. ws_onclose code s') s codes)) =
        length (timers s) + length (filter (\<lambda>code. code \<noteq> 1000) codes)"
    by (rule timers_closures)
qed

text \<open>
  C4, witness: the open socket of a live session closes with the code 1006, which arms a
  timer, or with the code 1000, which arms none.
\<close>

theorem onclose_arms_timer_witness:
  "0 < length (sockets (example_live [])) \<and> sockets (example_live []) ! 0 \<noteq> CLOSED
   \<and> timers (example_live []) = []
   \<and> timers (step (example_live []) (WsClose 0 1006)) = [5000]
   \<and> timers (step (example_live []) (WsClose 0 1000)) = []
   \<and> length (timers (foldl (\<lambda>s' code. ws_onclose code s') (example_live [])
                [1006, 1000, 1001])) = 2"
proof -
  have h: "0 < length (sockets (example_live [])) \<and> sockets (example_live []) ! 0 \<noteq> CLOSED"
    by code_simp
  have t: "timers (example_live []) = []"
    by code_simp
  from onclose_arms_timer[of 1006 "example_live []" 0 "[1006, 1000, 1001]"] h
  have a: "timers (step (example_live []) (WsClose 0 1006)) = timers (example_live []) @ [5000]"
    and c: "length (timers (foldl (\<lambda>s' code. ws_onclose code s') (example_live [])
                      [1006, 1000, 1001])) =
            length (timers (example_live []))
              + length (filter (\<lambda>code. code \<noteq> 1000) [1006, 1000, 1001 :: nat])"
    by simp_all
  from onclose_arms_timer[of 1000 "example_live []" 0 "[]"] h
  have b: "timers (step (example_live []) (WsClose 0 1000)) = timers (example_live [])"
    by simp
  from h t a b c show ?thesis by simp
qed

text \<open>
  C4 as stated fails: in the session \<open>example_two_closures\<close> two sockets close with the
  code 1006 and two timers are pending; when one of them has fired and React has
  committed, no socket has been constructed.
\<close>

theorem reconnect_counterexample:
  "timers (session (Some ''tok'') Granted example_two_closures) = [5000, 5000]
   \<and> sockets (session (Some ''tok'') Granted example_two_closures) = [CLOSED, CLOSED]
   \<and> sockets (session (Some ''tok'') Granted (example_two_closures @ [Timeout, Commit])) =
       [CLOSED, CLOSED]"
  by code_simp




text \<open>
  C6. After the store is seeded with the list the gateway returned (wrapped or bare, at
  bootstrap or at login), a push of a record whose id is not in the list gives the store
  that record followed by the list in the gateway's order: after the seed \<open>[r1, r2, r3]\<close>
  and the push of \<open>r4\<close> the store is \<open>[r4, r1, r2, r3]\<close>.
\<close>

theorem seed_then_push_order:
  assumes "\<not> exists_in r4 rs" and "d = Wrapped rs \<or> d = Bare rs"
  shows "notifications (handleNewNotification r4
            (loadUserProfile_notifications (Response True (Inr d)) s)) = r4 # rs
       \<and> notifications (handleNewNotification r4
            (handleLogin_notifications (Response True (Inr d)) s)) = r4 # rs"
  using assms
  by (auto simp: handleNewNotification_def add_notification_def Let_def
        loadUserProfile_notifications_def handleLogin_notifications_def
        api_getNotifications_def json_body_def and_then_def)

text \<open>C6, witness: the seed \<open>[n1, n2, n3]\<close> and the push of \<open>n4\<close>.\<close>

theorem seed_then_push_order_witness:
  "\<not> exists_in example_n4 [example_n1, example_n2, example_n3]
   \<and> notifications (handleNewNotification example_n4
        (loadUserProfile_notifications
           (Response True (Inr (Bare [example_n1, example_n2, example_n3])))
           (mounted (Some ''tok'') Granted))) =
       [example_n4, example_n1, example_n2, example_n3]"
proof -
  have h: "\<not> exists_in example_n4 [example_n1, example_n2, example_n3]"
    by code_simp
  have d: "Bare [example_n1, example_n2, example_n3] =
             Wrapped [example_n1, example_n2, example_n3]
           \<or> Bare [example_n1, example_n2, example_n3] =
             Bare [example_n1, example_n2, example_n3]"
    by simp
  from seed_then_push_order[OF h d, of "mounted (Some ''tok'') Granted"] h
  show ?thesis by blast
qed

text \<open>
  C7. Delete is not optimistic: issuing the remote call adds the request and leaves the
  store as it is, a failed call (no response, or a response that is not ok) leaves the
  whole state as it is, and only a successful call removes the records whose id is
  \<^verbatim>\<open>===\<close> to the id given, so a stored record deleted by its own id, and nothing else.
\<close>

theorem delete_after_confirmation:
  "requests (deleteNotification_call i s) = requests s @ [DeleteNotification i]
   \<and> notifications (deleteNotification_call i s) = notifications s
   \<and> deleteNotification_settled i (NetworkFailure m) s = s
   \<and> deleteNotification_settled i (Response False b) s = s
   \<and> deleteNotification i (NetworkFailure m) s = deleteNotification_call i s
   \<and> deleteNotification i (Response False b) s = deleteNotification_call i s
   \<and> notifications (deleteNotification_settled i (Response True b) s) =
       filter (\<lambda>notif. \<not> strict_eq (nid notif) i) (notifications s)
   \<and> deleteNotification_settled i (Response True b) s =
       s\<lparr>notifications := filter (\<lambda>notif. \<not> strict_eq (nid notif) i) (notifications s)\<rparr>
   \<and> deleteNotification i (Response True b) s =
       (deleteNotification_call i s)
         \<lparr>notifications := filter (\<lambda>notif. \<not> strict_eq (nid notif) i) (notifications s)\<rparr>
   \<and> (\<forall>n\<in>set (notifications s).
         n \<notin> set (notifications (deleteNotification (nid n) (Response True b) s)))"
  by (simp add: deleteNotification_def deleteNotification_call_def
        deleteNotification_settled_def api_deleteNotification_def strict_eq_refl)

text \<open>
  C7, witness: deleting the record 1 of a live store, with a call that fails and with a
  call that succeeds, and deleting the record whose id is an array by its own id.
\<close>

theorem delete_after_confirmation_witness:
  "notifications (deleteNotification (JNum 1) (Response False (Inr JNull))
      (example_live [example_n1, example_n2])) = [example_n1, example_n2]
   \<and> notifications (deleteNotification_settled (JNum 1) (Response True (Inr JNull))
      (example_live [example_n1, example_n2])) = [example_n2]
   \<and> example_arr \<in> set (notifications (example_live [example_arr, example_n2]))
   \<and> notifications (deleteNotification (nid example_arr) (Response True (Inr JNull))
      (example_live [example_arr, example_n2])) = [example_n2]"
proof -
  let ?s = "example_live [example_n1, example_n2]"
  let ?t = "example_live [example_arr, example_n2]"
  have st: "notifications ?s = [example_n1, example_n2]"
    by code_simp
  have f: "filter (\<lambda>notif. \<not> strict_eq (nid notif) (JNum 1)) [example_n1, example_n2] =
             [example_n2]"
    by code_simp
  have am: "example_arr \<in> set (notifications ?t)"
    by code_simp
  have g: "filter (\<lambda>notif. \<not> strict_eq (nid notif) (nid example_arr)) (notifications ?t) =
             [example_n2]"
    by code_simp
  from delete_after_confirmation[of "JNum 1" ?s "[]" "Inr JNull"]
  have "notifications (deleteNotification (JNum 1) (Response False (Inr JNull)) ?s) =
          notifications ?s"
    and "notifications (deleteNotification_settled (JNum 1) (Response True (Inr JNull)) ?s) =
          filter (\<lambda>notif. \<not> strict_eq (nid notif) (JNum 1)) (notifications ?s)"
    by simp_all
  moreover from delete_after_confirmation[of "nid example_arr" ?t "[]" "Inr JNull"]
  have "notifications (deleteNotification (nid example_arr) (Response True (Inr JNull)) ?t) =
          filter (\<lambda>notif. \<not> strict_eq (nid notif) (nid example_arr)) (notifications ?t)"
    by simp
  ultimately show ?thesis
    using st f am g by simp
qed

text \<open>
  C8. A frame that is not JSON, and a parsed frame whose \<^verbatim>\<open>type\<close> is neither
  \<^verbatim>\<open>notification\<close> nor \<^verbatim>\<open>unread_count\<close> (also one on which reading \<^verbatim>\<open>type\<close> throws),
  is discarded: the handler returns, no exception leaves it, and the state, the store
  included, is as it was.
\<close>

theorem malformed_frame_discarded:
  "ws_onmessage clk (Unparseable m) s = Inr s
   \<and> step s (WsMessage i clk (Unparseable m)) = s
   \<and> (get_prop d ''type'' \<noteq> Inr (JStr ''notification'')
        \<and> get_prop d ''type'' \<noteq> Inr (JStr ''unread_count'')
      \<longrightarrow> ws_onmessage clk (Parsed d) s = Inr s \<and> step s (WsMessage i clk (Parsed d)) = s)"
  by (cases "get_prop d ''type''")
     (auto simp: ws_onmessage_def onmessage_try_def and_then_def strict_eq_sym[of _ "JStr _"]
           split: sum.splits)

text \<open>
  C8, witness: a frame of the type \<^verbatim>\<open>ping\<close> and the frame \<^verbatim>\<open>null\<close>, on a live session
  with one record.
\<close>

theorem malformed_frame_discarded_witness:
  "get_prop example_ping ''type'' = Inr (JStr ''ping'')
   \<and> get_prop JNull ''type'' = Inl (TypeError ''Cannot read properties of null'')
   \<and> ws_onmessage example_clock (Parsed example_ping) (example_live [example_n1]) =
       Inr (example_live [example_n1])
   \<and> ws_onmessage example_clock (Parsed JNull) (example_live [example_n1]) =
       Inr (example_live [example_n1])
   \<and> ws_onmessage example_clock (Unparseable ''Unexpected token'') (example_live [example_n1]) =
       Inr (example_live [example_n1])"
proof -
  let ?s = "example_live [example_n1]"
  have p: "get_prop example_ping ''type'' = Inr (JStr ''ping'')"
    by code_simp
  have n: "get_prop JNull ''type'' = Inl (TypeError ''Cannot read properties of null'')"
    by simp
  from p have hp: "get_prop example_ping ''type'' \<noteq> Inr (JStr ''notification'')
                   \<and> get_prop example_ping ''type'' \<noteq> Inr (JStr ''unread_count'')"
    by simp
  have hn: "get_prop JNull ''type'' \<noteq> Inr (JStr ''notification'')
            \<and> get_prop JNull ''type'' \<noteq> Inr (JStr ''unread_count'')"
    by simp
  from malformed_frame_discarded[of example_clock "''Unexpected token''" ?s 0 example_ping] hp
  have a: "ws_onmessage example_clock (Parsed example_ping) ?s = Inr ?s"
    and c: "ws_onmessage example_clock (Unparseable ''Unexpected token'') ?s = Inr ?s"
    by blast+
  from malformed_frame_discarded[of example_clock "''Unexpected token''" ?s 0 JNull] hn
  have b: "ws_onmessage example_clock (Parsed JNull) ?s = Inr ?s"
    by blast
  from p n a b c show ?thesis by blast
qed






end
